theory Spec2Isabelle
  imports Complex_Main "HOL-Library.Sublist" "HOL-Library.Multiset"
begin

section \<open>The RAG bootcamp notebooks: web search (LlamaIndex) and SQL search (LangChain)\<close>

text \<open>
  The repository holds two notebooks. Each binds a query, sends it to a hosted chat
  model inside a \<^verbatim>\<open>try/except\<close>, and then answers the same query with retrieved
  context: \<^verbatim>\<open>web_search_llamaindex.ipynb\<close> through a Google search, a FAISS index and
  a \<^verbatim>\<open>RetrieverQueryEngine\<close>; \<^verbatim>\<open>sql_search_langchain.ipynb\<close> through a
  \<^verbatim>\<open>SQLDatabaseChain\<close>. A notebook is modelled as the list of its code cells; a
  cell maps the kernel state to an optional raised exception and the new state.
  Everything outside the notebooks (the chat endpoint, the search engine, the web, the
  HTML parser, the text splitter, the embedding model, the SQL engine) is a field of a
  record \<open>world\<close>, so every theorem holds for whatever those services answer.
\<close>

subsection \<open>Exceptions\<close>

text \<open>
  A Python exception object: its class name, its \<^verbatim>\<open>message\<close> attribute when it has one
  (the exceptions of the OpenAI client have it, a plain \<^verbatim>\<open>Exception\<close> has not), and
  the exception that was being handled when it was raised (\<^verbatim>\<open>__context__\<close>). All
  exceptions of the model are instances of \<^verbatim>\<open>Exception\<close>, which is what
  \<^verbatim>\<open>except Exception\<close> catches.
\<close>

datatype py_exception =
  PyException (exc_type: string) (message: "string option") (exc_context: "py_exception option")

text \<open>Reading \<^verbatim>\<open>err.message\<close> on an exception without that attribute.\<close>

definition attribute_error :: "py_exception \<Rightarrow> py_exception" where
  "attribute_error err = PyException ''AttributeError'' None (Some err)"

text \<open>Reading a global variable that no cell has bound yet.\<close>

definition name_error :: "py_exception" where
  "name_error = PyException ''NameError'' None None"

text \<open>
  Python's \<^verbatim>\<open>sub in s\<close> on strings: \<open>sub\<close> occurs in \<open>s\<close> as a contiguous run of
  characters.
\<close>

fun str_contains :: "string \<Rightarrow> string \<Rightarrow> bool" where
  "str_contains sub [] = (sub = [])"
| "str_contains sub (c # cs) = (prefix sub (c # cs) \<or> str_contains sub cs)"

definition is_service_unavailable :: "py_exception \<Rightarrow> bool" where
  "is_service_unavailable err =
     (case message err of None \<Rightarrow> False | Some m \<Rightarrow> str_contains ''Error code: 503'' m)"

subsection \<open>The services outside the notebooks\<close>

type_synonym embedding = "rat list"

text \<open>
  \<^item> \<open>chat_completion n p\<close>: what the hosted chat-completion endpoint does with the
    \<open>n\<close>-th request it receives, whose prompt is \<open>p\<close>: the text of the reply, or the
    exception the client raises. The endpoint is not a function of the prompt alone
    (it may be loading at one moment and ready the next), hence the request number.
  \<^item> \<open>search_hits q\<close>: the result URLs of the search engine for \<open>q\<close>, in order.
  \<^item> \<open>requests_get u\<close>: the body of the page at \<open>u\<close> (\<^verbatim>\<open>requests.get(u).content\<close>),
    or the exception raised when the page cannot be reached.
  \<^item> \<open>get_text c\<close>: \<^verbatim>\<open>BeautifulSoup(c, 'html.parser').get_text()\<close>.
  \<^item> \<open>split_text size overlap t\<close>: the chunks that
    \<^verbatim>\<open>RecursiveCharacterTextSplitter(chunk_size=size, chunk_overlap=overlap)\<close> makes of \<open>t\<close>.
  \<^item> \<open>get_text_embedding t\<close>: the vector of the embedding model for \<open>t\<close>.
  \<^item> \<open>qa_prompt ctx q\<close>: the prompt of the query engine for the context chunks \<open>ctx\<close>
    and the query \<open>q\<close>.
  \<^item> \<open>table_info\<close>, \<open>sql_prompt info q\<close>: the schema of the database and the prompt of
    the database chain for it and the question \<open>q\<close>.
  \<^item> \<open>db_run sql\<close>: the result of the SQL engine for \<open>sql\<close> on the database, printed
    as a string, or the exception it raises.

  The calls over the network that the claims are about can raise: the chat endpoint,
  the page fetch and the SQL engine. The search, the HTML parser, the splitter and the
  embedding model are taken to return. The database is the same for every call of
  \<open>db_run\<close>: the notebooks only read it.
\<close>

record world =
  chat_completion :: "nat \<Rightarrow> string \<Rightarrow> py_exception + string"
  search_hits :: "string \<Rightarrow> string list"
  requests_get :: "string \<Rightarrow> py_exception + string"
  get_text :: "string \<Rightarrow> string"
  split_text :: "nat \<Rightarrow> nat \<Rightarrow> string \<Rightarrow> string list"
  get_text_embedding :: "string \<Rightarrow> embedding"
  qa_prompt :: "string list \<Rightarrow> string \<Rightarrow> string"
  table_info :: string
  sql_prompt :: "string \<Rightarrow> string \<Rightarrow> string"
  db_run :: "string \<Rightarrow> py_exception + string"

subsection \<open>Events and the kernel state\<close>

text \<open>
  The calls a run makes, in the order it makes them. \<open>LlmChat\<close>, \<open>EngineQuery\<close> and
  \<open>ChainInvoke\<close> are the notebook's calls \<^verbatim>\<open>llm.chat(message)\<close> (or
  \<^verbatim>\<open>llm.invoke(message)\<close>), \<^verbatim>\<open>query_engine.query(query)\<close> and
  \<^verbatim>\<open>db_chain.invoke(query)\<close>, with the string they are given; \<open>Generate n p\<close> is the
  \<open>n\<close>-th request to the chat endpoint, with prompt \<open>p\<close>.
\<close>

datatype event =
    LlmChat string
  | Search string nat
  | Fetch string
  | Extract string
  | Chunk nat
  | Embed string
  | IndexAdd nat
  | Retrieve string nat
  | EngineQuery string
  | Prompt string
  | Generate nat string
  | ChainInvoke string
  | Schema
  | RunSql string

text \<open>
  The global variables of the kernel that the cells read and write (\<open>None\<close>: not bound
  yet), what has been printed, the events so far and the number of requests sent to
  the chat endpoint. \<open>index\<close> is the FAISS index behind \<^verbatim>\<open>index\<close> and
  \<^verbatim>\<open>retriever\<close>: the chunks with their vectors, in insertion order. \<open>sql_result\<close> is
  the \<^verbatim>\<open>SQLResult\<close> of the database chain.
\<close>

record nb_state =
  query :: string
  result :: "string option"
  web_documents :: "string list"
  docs :: "string list option"
  chunks :: "string list option"
  faiss_dim :: "nat option"
  index :: "(string \<times> embedding) list option"
  retrieved_docs :: "string list option"
  sql_result :: "string option"
  stdout :: "string list"
  trace :: "event list"
  requests :: nat

type_synonym cell = "nb_state \<Rightarrow> py_exception option \<times> nb_state"

text \<open>The kernel after the cell \<^verbatim>\<open>query = "..."\<close> has run.\<close>

definition init :: "string \<Rightarrow> nb_state" where
  "init q = \<lparr>query = q, result = None, web_documents = [], docs = None, chunks = None,
     faiss_dim = None, index = None, retrieved_docs = None, sql_result = None,
     stdout = [], trace = [], requests = 0\<rparr>"

definition print_line :: "string \<Rightarrow> nb_state \<Rightarrow> nb_state" where
  "print_line t s = s\<lparr>stdout := stdout s @ [t]\<rparr>"

definition log_events :: "event list \<Rightarrow> nb_state \<Rightarrow> nb_state" where
  "log_events evs s = s\<lparr>trace := trace s @ evs\<rparr>"

text \<open>Running the cells from top to bottom stops at the first cell that raises.\<close>

fun run_cells :: "cell list \<Rightarrow> cell" where
  "run_cells [] s = (None, s)"
| "run_cells (c # cs) s =
     (case c s of (None, s') \<Rightarrow> run_cells cs s' | (Some err, s') \<Rightarrow> (Some err, s'))"

text \<open>The events a cell adds to the trace.\<close>

definition emitted :: "cell \<Rightarrow> nb_state \<Rightarrow> event list" where
  "emitted c s = drop (length (trace s)) (trace (snd (c s)))"

text \<open>Decimal digits of a number, as an f-string prints it.\<close>

fun show_nat :: "nat \<Rightarrow> string" where
  "show_nat n =
     (if n < 10 then [char_of (48 + n)]
      else show_nat (n div 10) @ [char_of (48 + n mod 10)])"

declare show_nat.simps [simp del]

definition newline :: string where
  "newline = [CHR 0x0A]"

subsection \<open>The basic generation request (both notebooks)\<close>

definition GENERATOR_MODEL_NAME :: string where
  "GENERATOR_MODEL_NAME = ''Meta-Llama-3.1-8B-Instruct''"

text \<open>One request to the chat endpoint: it is counted and logged whether it succeeds or not.\<close>

definition chat :: "world \<Rightarrow> string \<Rightarrow> nb_state \<Rightarrow> (py_exception + string) \<times> nb_state" where
  "chat w p s =
     (chat_completion w (requests s) p,
      log_events [Generate (requests s) p] (s\<lparr>requests := Suc (requests s)\<rparr>))"

text \<open>
  \<^verbatim>\<open>
  except Exception as err:
      if "Error code: 503" in err.message:
          print(f"The model {GENERATOR_MODEL_NAME} is not ready yet.")
      else:
          raise
  \<close>
\<close>

definition handle_generation_error :: "py_exception \<Rightarrow> cell" where
  "handle_generation_error err s =
     (case message err of
        None \<Rightarrow> (Some (attribute_error err), s)
      | Some m \<Rightarrow>
          if str_contains ''Error code: 503'' m
          then (None, print_line (''The model '' @ GENERATOR_MODEL_NAME @ '' is not ready yet.'') s)
          else (Some err, s))"

text \<open>
  \<^verbatim>\<open>
  try:
      result = llm.chat(message)
      print(f"Result: \n\n{result}")
  except Exception as err: ...
  \<close>
  with \<^verbatim>\<open>message\<close> the query as the one user message. The SQL notebook has the same
  cell with \<^verbatim>\<open>llm.invoke(message)\<close> and \<^verbatim>\<open>result.content\<close>.
\<close>

definition basic_generation :: "world \<Rightarrow> cell" where
  "basic_generation w s =
     (case chat w (query s) (log_events [LlmChat (query s)] s) of
        (Inr r, s1) \<Rightarrow>
          (None, print_line (''Result: '' @ newline @ newline @ r) (s1\<lparr>result := Some r\<rparr>))
      | (Inl err, s1) \<Rightarrow> handle_generation_error err s1)"

subsection \<open>The web notebook: ingestion\<close>

text \<open>
  \<^verbatim>\<open>search(query, tld="com", num=5, stop=10, pause=2)\<close>: the generator of the
  \<^verbatim>\<open>googlesearch\<close> package ends after \<open>stop\<close> results.
\<close>

definition search :: "world \<Rightarrow> string \<Rightarrow> nat \<Rightarrow> string list" where
  "search w q stop = take stop (search_hits w q)"

text \<open>
  The body of the loop, once for each URL, in order:
  \<^verbatim>\<open>
  for result_url in search(...):
      response = requests.get(result_url)
      soup = BeautifulSoup(response.content, 'html.parser')
      web_documents.append(soup.get_text())
  \<close>
  An exception of \<^verbatim>\<open>requests.get\<close> ends the loop and the cell; the documents appended
  so far stay in \<^verbatim>\<open>web_documents\<close>.
\<close>

fun fetch_all :: "world \<Rightarrow> string list \<Rightarrow> cell" where
  "fetch_all w [] s = (None, s)"
| "fetch_all w (result_url # urls) s =
     (case requests_get w result_url of
        Inl err \<Rightarrow> (Some err, log_events [Fetch result_url] s)
      | Inr content \<Rightarrow>
          fetch_all w urls
            ((log_events [Fetch result_url, Extract content] s)
               \<lparr>web_documents := web_documents s @ [get_text w content]\<rparr>))"

text \<open>
  The cell around the loop:
  \<^verbatim>\<open>
  web_documents = []
  for result_url in search(query, tld="com", num=5, stop=10, pause=2): ...
  docs = StringIterableReader().load_data(texts=web_documents)
  print(f"Number of source documents: {len(docs)}")
  parser = LangchainNodeParser(RecursiveCharacterTextSplitter(chunk_size=512, chunk_overlap=32))
  chunks = parser.get_nodes_from_documents(docs)
  print(f"Number of text chunks: {len(chunks)}")
  \<close>
  \<^verbatim>\<open>load_data\<close> makes one document of each text; the node parser splits each
  document with the splitter and returns the chunks of all documents, in order.
\<close>

definition ingest :: "world \<Rightarrow> cell" where
  "ingest w s =
     (case fetch_all w (search w (query s) 10)
             (log_events [Search (query s) 10] (s\<lparr>web_documents := []\<rparr>)) of
        (Some err, s1) \<Rightarrow> (Some err, s1)
      | (None, s1) \<Rightarrow>
          (let ds = web_documents s1;
               s2 = print_line (''Number of source documents: '' @ show_nat (length ds))
                      (s1\<lparr>docs := Some ds\<rparr>);
               cs = concat (map (split_text w 512 32) ds);
               s3 = (log_events [Chunk (length ds)] s2)\<lparr>chunks := Some cs\<rparr>
           in (None, print_line (''Number of text chunks: '' @ show_nat (length cs)) s3)))"

subsection \<open>The web notebook: index and retriever\<close>

text \<open>
  \<^verbatim>\<open>
  def get_embed_model_dim(embed_model):
      embed_out = embed_model.get_text_embedding("Dummy Text")
      return len(embed_out)
  \<close>
\<close>

definition get_embed_model_dim :: "world \<Rightarrow> nat" where
  "get_embed_model_dim w = length (get_text_embedding w ''Dummy Text'')"

text \<open>
  \<^verbatim>\<open>
  faiss_dim = get_embed_model_dim(embeddings)
  faiss_index = faiss.IndexFlatL2(faiss_dim)
  vector_store = FaissVectorStore(faiss_index=faiss_index)
  storage_context = StorageContext.from_defaults(vector_store=vector_store)
  index = VectorStoreIndex(chunks, storage_context=storage_context)
  \<close>
  Building the index embeds every chunk and inserts the vectors (the spec: embed each
  chunk, insert into a similarity index).
\<close>

definition build_index :: "world \<Rightarrow> cell" where
  "build_index w s =
     (case chunks s of
        None \<Rightarrow>
          (Some name_error,
           (log_events [Embed ''Dummy Text''] s)\<lparr>faiss_dim := Some (get_embed_model_dim w)\<rparr>)
      | Some cs \<Rightarrow>
          (None,
           (log_events (Embed ''Dummy Text'' # map Embed cs @ [IndexAdd (length cs)]) s)
             \<lparr>faiss_dim := Some (get_embed_model_dim w),
              index := Some (map (\<lambda>c. (c, get_text_embedding w c)) cs)\<rparr>))"

text \<open>
  The distance of a flat L2 index: the sum of the squared differences of the
  components. All vectors of one embedding model have the same length.
\<close>

definition l2_distance :: "embedding \<Rightarrow> embedding \<Rightarrow> rat" where
  "l2_distance x y = sum_list (map (\<lambda>(a, b). (a - b) * (a - b)) (zip x y))"

definition similarity_top_k :: nat where
  "similarity_top_k = 5"

text \<open>
  Modelled from the spec: the search of the FAISS index (\<^verbatim>\<open>faiss.IndexFlatL2\<close>, reached
  through \<^verbatim>\<open>index.as_retriever(similarity_top_k=5)\<close>) is code of the FAISS and
  LlamaIndex libraries, which the notebook only calls. The spec: retrieve the \<open>k\<close>
  nearest chunks to the embedded query; the chunks are ordered by descending
  similarity to the query embedding.
\<close>

definition faiss_search ::
  "nat \<Rightarrow> (string \<times> embedding) list \<Rightarrow> embedding \<Rightarrow> (string \<times> embedding) list" where
  "faiss_search k idx qe = take k (sort_key (\<lambda>(c, e). l2_distance e qe) idx)"

definition retrieve :: "world \<Rightarrow> (string \<times> embedding) list \<Rightarrow> string \<Rightarrow> string list" where
  "retrieve w idx q = map fst (faiss_search similarity_top_k idx (get_text_embedding w q))"

text \<open>
  \<^verbatim>\<open>
  retriever = index.as_retriever(similarity_top_k=5)
  retrieved_docs = retriever.retrieve(query)
  \<close>
\<close>

definition retrieve_cell :: "world \<Rightarrow> cell" where
  "retrieve_cell w s =
     (case index s of
        None \<Rightarrow> (Some name_error, s)
      | Some idx \<Rightarrow>
          (None,
           (log_events [Embed (query s), Retrieve (query s) similarity_top_k] s)
             \<lparr>retrieved_docs := Some (retrieve w idx (query s))\<rparr>))"

text \<open>
  \<^verbatim>\<open>
  def pretty_print_docs(docs):
      print(
          f"\n{'-' * 100}\n".join(
              [f"Document {i+1}:\n\n" + d.text for i, d in enumerate(docs)]
          )
      )
  \<close>
\<close>

fun str_join :: "string \<Rightarrow> string list \<Rightarrow> string" where
  "str_join sep [] = []"
| "str_join sep [x] = x"
| "str_join sep (x # y # ys) = x @ sep @ str_join sep (y # ys)"

definition pretty_print_docs :: "string list \<Rightarrow> nb_state \<Rightarrow> nb_state" where
  "pretty_print_docs ds s =
     print_line
       (str_join (newline @ replicate 100 CHR ''-'' @ newline)
          (map (\<lambda>(i, d). ''Document '' @ show_nat (i + 1) @ '':'' @ newline @ newline @ d)
             (enumerate 0 ds)))
       s"

definition show_retrieved :: cell where
  "show_retrieved s =
     (case retrieved_docs s of
        None \<Rightarrow> (Some name_error, s)
      | Some ds \<Rightarrow> (None, pretty_print_docs ds s))"

subsection \<open>The web notebook: the retrieval-augmented query\<close>

text \<open>
  \<^verbatim>\<open>
  query_engine = RetrieverQueryEngine(retriever=retriever)
  result = query_engine.query(query)
  print(f"Result: \n\n{result}")
  \<close>
  The notebook has no \<^verbatim>\<open>try\<close> around the call.
\<close>

text \<open>
  Modelled from the spec: what \<^verbatim>\<open>RetrieverQueryEngine.query\<close> does inside is code of
  the LlamaIndex library, which the notebook only calls. The spec: retrieve the \<open>k\<close>
  nearest chunks to the embedded query; assemble a prompt containing the retrieved
  context and the original query; call the generation endpoint once. An exception of
  the endpoint passes through the engine to the caller.
\<close>

definition rag_query :: "world \<Rightarrow> cell" where
  "rag_query w s =
     (case index s of
        None \<Rightarrow> (Some name_error, s)
      | Some idx \<Rightarrow>
          (let nodes = retrieve w idx (query s);
               p = qa_prompt w nodes (query s);
               s1 = log_events
                      [EngineQuery (query s), Embed (query s),
                       Retrieve (query s) similarity_top_k, Prompt p] s
           in case chat w p s1 of
                (Inl err, s2) \<Rightarrow> (Some err, s2)
              | (Inr r, s2) \<Rightarrow>
                  (None, print_line (''Result: '' @ newline @ newline @ r)
                           (s2\<lparr>result := Some r\<rparr>))))"

text \<open>
  The code cells after \<^verbatim>\<open>query = "..."\<close>, top to bottom. Loading the embedding model
  and assigning \<^verbatim>\<open>Settings\<close> call none of the services and change none of the
  variables of the model.
\<close>

definition web_pipeline :: "world \<Rightarrow> cell list" where
  "web_pipeline w = [ingest w, build_index w, retrieve_cell w, show_retrieved, rag_query w]"

definition web_notebook :: "world \<Rightarrow> cell list" where
  "web_notebook w = basic_generation w # web_pipeline w"

subsection \<open>The SQL notebook: the database chain\<close>

text \<open>
  \<^verbatim>\<open>
  db = SQLDatabase.from_uri("sqlite:///banking_term_deposits.db")
  db_chain = SQLDatabaseChain.from_llm(llm, db, verbose=True)
  result = db_chain.invoke(query)
  \<close>
  The notebook has no \<^verbatim>\<open>try\<close> around the call.
\<close>

text \<open>
  Modelled from the spec: the chain is code of the LangChain library, which the
  notebook only calls. The spec: schema introspector, LLM-driven SQL generator, SQL
  executor, result-to-natural-language formatter. The notebook describes the same
  steps before the call and prints them (\<^verbatim>\<open>verbose=True\<close>): the prompt with the
  schema and the question is sent to the model, which returns an SQL query; the
  query is sent to the database; the result is sent back to the model with the
  question, and the model returns the answer. The second prompt is the first
  followed by the SQL query, \<^verbatim>\<open>SQLResult:\<close>, the result and \<^verbatim>\<open>Answer:\<close>, as in
  the template that the notebook prints. An exception of the endpoint or of the
  database passes through the chain to the caller.
\<close>

definition answer_prompt :: "string \<Rightarrow> string \<Rightarrow> string \<Rightarrow> string" where
  "answer_prompt p sql res = p @ sql @ newline @ ''SQLResult: '' @ res @ newline @ ''Answer:''"

definition db_chain_invoke :: "world \<Rightarrow> cell" where
  "db_chain_invoke w s =
     (let p = sql_prompt w (table_info w) (query s);
          s1 = log_events [ChainInvoke (query s), Schema] s
      in case chat w p s1 of
           (Inl err, s2) \<Rightarrow> (Some err, s2)
         | (Inr sql, s2) \<Rightarrow>
             (case db_run w sql of
                Inl err \<Rightarrow> (Some err, log_events [RunSql sql] s2)
              | Inr res \<Rightarrow>
                  (case chat w (answer_prompt p sql res)
                          ((log_events [RunSql sql] s2)\<lparr>sql_result := Some res\<rparr>) of
                     (Inl err, s3) \<Rightarrow> (Some err, s3)
                   | (Inr answer, s3) \<Rightarrow> (None, s3\<lparr>result := Some answer\<rparr>))))"

definition sql_notebook :: "world \<Rightarrow> cell list" where
  "sql_notebook w = [basic_generation w, db_chain_invoke w]"

subsection \<open>Stages of the web pipeline\<close>

datatype stage =
    SearchProvider | PageFetcher | TextExtractor | Chunker | Embedder
  | VectorIndex | TopKRetriever | PromptAssembler | LLMCall

fun stage_of :: "event \<Rightarrow> stage option" where
  "stage_of (Search q n) = Some SearchProvider"
| "stage_of (Fetch u) = Some PageFetcher"
| "stage_of (Extract c) = Some TextExtractor"
| "stage_of (Chunk n) = Some Chunker"
| "stage_of (Embed t) = Some Embedder"
| "stage_of (IndexAdd n) = Some VectorIndex"
| "stage_of (Retrieve q k) = Some TopKRetriever"
| "stage_of (Prompt p) = Some PromptAssembler"
| "stage_of (Generate n p) = Some LLMCall"
| "stage_of ev = None"



definition stages :: "event list \<Rightarrow> stage list" where
  "stages tr = List.map_filter stage_of tr"


subsection \<open>Observations on a run\<close>



text \<open>The string a call of the notebook is given as the query, for the calls that take one.\<close>

fun query_arg :: "event \<Rightarrow> string option" where
  "query_arg (LlmChat q) = Some q"
| "query_arg (Search q n) = Some q"
| "query_arg (Retrieve q k) = Some q"
| "query_arg (EngineQuery q) = Some q"
| "query_arg (ChainInvoke q) = Some q"
| "query_arg ev = None"



text \<open>
  Every call of the trace that takes a query is given \<open>q\<close>; the variable
  \<^verbatim>\<open>query\<close> holds \<open>q\<close> and every call so far was given \<open>q\<close>.
\<close>

definition receives_only :: "string \<Rightarrow> event list \<Rightarrow> bool" where
  "receives_only q tr = list_all (\<lambda>ev. query_arg ev = None \<or> query_arg ev = Some q) tr"

definition query_kept :: "string \<Rightarrow> nb_state \<Rightarrow> bool" where
  "query_kept q s = (query s = q \<and> receives_only q (trace s))"




subsection \<open>Some worlds\<close>

text \<open>
  A world in which every service answers: two result pages, a splitter that cuts at
  full stops, a two-dimensional embedding.
\<close>

definition dq :: string where
  "dq = [CHR 0x22]"

definition sq :: string where
  "sq = [CHR 0x27]"

definition world_series :: string where
  "world_series = ''Who won the 2024 World Series of baseball?''"

definition calm_world :: world where
  "calm_world =
     \<lparr>chat_completion = (\<lambda>n p. Inr ''The Los Angeles Dodgers won the championship.''),
      search_hits = (\<lambda>q. [''https://www.mlb.com'', ''https://en.wikipedia.org'']),
      requests_get = (\<lambda>u. Inr (''<p>'' @ u @ ''</p>'')),
      get_text = (\<lambda>c. drop 3 (take (length c - 4) c)),
      split_text = (\<lambda>size overlap t. [take size t]),
      get_text_embedding = (\<lambda>t. [of_nat (length t), 1]),
      qa_prompt = (\<lambda>ctx q. concat ctx @ q),
      table_info = ''banking_term_deposits(age, job, balance)'',
      sql_prompt = (\<lambda>info q. info @ newline @ ''Question: '' @ q @ newline @ ''SQLQuery:''),
      db_run = (\<lambda>sql. Inr ''[]'')\<rparr>"



text \<open>The endpoint answers the first request and is unavailable from then on.\<close>

definition service_unavailable :: py_exception where
  "service_unavailable =
     PyException ''InternalServerError'' (Some ''Error code: 503 - service unavailable'') None"


text \<open>The model is still loading: every request meets the error code 503.\<close>

definition loading_world :: world where
  "loading_world = calm_world\<lparr>chat_completion := (\<lambda>n p. Inl service_unavailable)\<rparr>"

text \<open>The endpoint raises an exception that has no \<^verbatim>\<open>message\<close> attribute.\<close>

definition connection_error :: py_exception where
  "connection_error = PyException ''ConnectionError'' None None"

definition offline_world :: world where
  "offline_world = calm_world\<lparr>chat_completion := (\<lambda>n p. Inl connection_error)\<rparr>"

text \<open>
  The run recorded in the SQL notebook: the SQL query the model wrote, the result of
  the database, and the final answer, which repeats the question and the query.
\<close>

definition banking_question :: string where
  "banking_question =
     ''What is the average balance of all management jobs who applied for banking deposits?''"

definition sql_avg :: string where
  "sql_avg = ''SELECT AVG('' @ dq @ ''balance'' @ dq @ '') FROM banking_term_deposits WHERE ''
     @ dq @ ''job'' @ dq @ '' = '' @ sq @ ''management'' @ sq"

definition sql_round :: string where
  "sql_round = ''SELECT ROUND(AVG('' @ dq @ ''balance'' @ dq
     @ ''), 2) FROM banking_term_deposits WHERE ''
     @ dq @ ''job'' @ dq @ '' = '' @ sq @ ''management'' @ sq"

definition recorded_answer :: string where
  "recorded_answer = ''Question: '' @ banking_question @ newline @ ''SQLQuery: '' @ sql_avg"

definition banking_db :: "string \<Rightarrow> py_exception + string" where
  "banking_db sql =
     (if sql = sql_avg then Inr ''[(1763.6168323112709,)]''
      else if sql = sql_round then Inr ''[(1763.62,)]''
      else Inl (PyException ''OperationalError'' None None))"

definition recorded_world :: world where
  "recorded_world =
     calm_world\<lparr>chat_completion :=
       (\<lambda>n p. if n = 0 then Inr ''I cannot provide information on the average balance.''
              else if n = 1 then Inr sql_avg else Inr recorded_answer),
       db_run := banking_db\<rparr>"



text \<open>An index of six chunks with one-dimensional vectors.\<close>

definition small_index :: "(string \<times> embedding) list" where
  "small_index =
     [(''a'', [3]), (''b'', [1]), (''c'', [6]), (''d'', [2]), (''e'', [5]), (''f'', [4])]"

section \<open>Properties\<close>

subsection \<open>Strings and exceptions\<close>

lemma str_contains_sublist: "str_contains sub s \<longleftrightarrow> sublist sub s"
  by (induction s) (auto simp: sublist_Cons_right)

lemma is_service_unavailable_iff:
  "is_service_unavailable err \<longleftrightarrow> (\<exists>m. message err = Some m \<and> sublist ''Error code: 503'' m)"
  by (simp add: is_service_unavailable_def str_contains_sublist split: option.splits)

lemma attribute_error_fresh: "attribute_error err \<noteq> err"
proof
  assume "attribute_error err = err"
  then have "size (attribute_error err) = size err" by simp
  then show False by (simp add: attribute_error_def)
qed

subsection \<open>The basic generation cell\<close>

lemma basic_generation_raises:
  assumes "chat_completion w (requests s) (query s) = Inl err"
  shows "basic_generation w s =
           handle_generation_error err
             (log_events [LlmChat (query s), Generate (requests s) (query s)]
                (s\<lparr>requests := Suc (requests s)\<rparr>))"
  using assms by (simp add: basic_generation_def chat_def log_events_def)


text \<open>
  C10. The handler of the basic generation cell, which is the first code cell after
  the query in both notebooks, tests \<^verbatim>\<open>"Error code: 503" in err.message\<close>. When the
  generation call raises an exception without a \<^verbatim>\<open>message\<close> attribute, the cell
  ends with an AttributeError, which is not the original exception, and prints
  nothing. When the exception has a message, the cell prints the not-ready message
  and ends normally if the message has the error code 503, and re-raises the
  original exception otherwise.
\<close>

theorem handler_needs_message:
  assumes "chat_completion w (requests s) (query s) = Inl err"
  shows "hd (web_notebook w) = basic_generation w \<and> hd (sql_notebook w) = basic_generation w
       \<and> (message err = None \<longrightarrow>
            fst (basic_generation w s) = Some (attribute_error err)
            \<and> attribute_error err \<noteq> err
            \<and> stdout (snd (basic_generation w s)) = stdout s)
       \<and> (message err \<noteq> None \<longrightarrow>
            (if is_service_unavailable err
             then fst (basic_generation w s) = None
                  \<and> stdout (snd (basic_generation w s)) =
                      stdout s @ [''The model Meta-Llama-3.1-8B-Instruct is not ready yet.'']
             else fst (basic_generation w s) = Some err
                  \<and> stdout (snd (basic_generation w s)) = stdout s))"
  by (auto simp add: basic_generation_raises [OF assms] handle_generation_error_def
      attribute_error_fresh log_events_def print_line_def GENERATOR_MODEL_NAME_def
      is_service_unavailable_def web_notebook_def sql_notebook_def)

theorem handler_needs_message_witness:
  "chat_completion offline_world (requests (init world_series)) (query (init world_series))
     = Inl connection_error
   \<and> message connection_error = None
   \<and> fst (basic_generation offline_world (init world_series))
       = Some (attribute_error connection_error)
   \<and> chat_completion loading_world (requests (init world_series)) (query (init world_series))
       = Inl service_unavailable
   \<and> message service_unavailable \<noteq> None
   \<and> is_service_unavailable service_unavailable
   \<and> fst (basic_generation loading_world (init world_series)) = None"
proof -
  have off: "chat_completion offline_world (requests (init world_series))
               (query (init world_series)) = Inl connection_error"
    by (simp add: offline_world_def calm_world_def)
  have load: "chat_completion loading_world (requests (init world_series))
                (query (init world_series)) = Inl service_unavailable"
    by (simp add: loading_world_def calm_world_def)
  have no_msg: "message connection_error = None"
    by (simp add: connection_error_def)
  have msg: "message service_unavailable \<noteq> None"
    by (simp add: service_unavailable_def)
  have unavailable: "is_service_unavailable service_unavailable"
    by (simp add: is_service_unavailable_def service_unavailable_def)
  show ?thesis
    using handler_needs_message [OF off] handler_needs_message [OF load]
      off load no_msg msg unavailable
    by simp
qed



subsection \<open>What the cells log, return and raise\<close>

lemma basic_generation_trace:
  "trace (snd (basic_generation w s)) =
     trace s @ [LlmChat (query s), Generate (requests s) (query s)]"
  by (simp add: basic_generation_def chat_def log_events_def print_line_def
      handle_generation_error_def split: sum.splits option.splits)

lemma rag_query_trace:
  assumes "index s = Some idx"
  shows "trace (snd (rag_query w s)) =
     trace s @ [EngineQuery (query s), Embed (query s), Retrieve (query s) similarity_top_k,
       Prompt (qa_prompt w (retrieve w idx (query s)) (query s)),
       Generate (requests s) (qa_prompt w (retrieve w idx (query s)) (query s))]"
  using assms
  by (simp add: rag_query_def chat_def log_events_def print_line_def Let_def split: sum.splits)

lemma basic_generation_emitted:
  "emitted (basic_generation w) s = [LlmChat (query s), Generate (requests s) (query s)]"
  by (simp add: emitted_def basic_generation_trace)

lemma rag_query_emitted:
  assumes "index s = Some idx"
  shows "emitted (rag_query w) s =
     [EngineQuery (query s), Embed (query s), Retrieve (query s) similarity_top_k,
       Prompt (qa_prompt w (retrieve w idx (query s)) (query s)),
       Generate (requests s) (qa_prompt w (retrieve w idx (query s)) (query s))]"
  by (simp add: emitted_def rag_query_trace [OF assms])


lemma rag_query_returns:
  assumes "index s = Some idx"
    and "chat_completion w (requests s) (qa_prompt w (retrieve w idx (query s)) (query s)) = Inr r"
  shows "fst (rag_query w s) = None" and "result (snd (rag_query w s)) = Some r"
  using assms by (simp_all add: rag_query_def chat_def log_events_def print_line_def Let_def)


lemma chain_db_raises:
  assumes "chat_completion w (requests s) (sql_prompt w (table_info w) (query s)) = Inr sql"
    and "db_run w sql = Inl err"
  shows "db_chain_invoke w s =
     (Some err, log_events [ChainInvoke (query s), Schema,
        Generate (requests s) (sql_prompt w (table_info w) (query s)), RunSql sql]
        (s\<lparr>requests := Suc (requests s)\<rparr>))"
  using assms by (simp add: db_chain_invoke_def chat_def log_events_def Let_def)




subsection \<open>Exceptions of the generation calls\<close>





subsection \<open>Generation calls of each path\<close>

lemma chain_query [simp]: "query (snd (db_chain_invoke w s)) = query s"
  by (simp add: db_chain_invoke_def chat_def log_events_def Let_def split: sum.splits)





subsection \<open>Running the database chain twice\<close>




text \<open>
  In the run recorded in the notebook the final answer repeats the question and the
  SQL query, and does not contain the number that the database returned.
\<close>

lemma recorded_answer_without_number:
  "fst (run_cells (sql_notebook recorded_world) (init banking_question)) = None
  \<and> sql_result (snd (run_cells (sql_notebook recorded_world) (init banking_question))) = Some ''[(1763.6168323112709,)]''
  \<and> result (snd (run_cells (sql_notebook recorded_world) (init banking_question))) = Some recorded_answer
  \<and> \<not> str_contains ''1763'' recorded_answer"
  apply (simp add: recorded_world_def calm_world_def sql_notebook_def basic_generation_def
      db_chain_invoke_def chat_def log_events_def print_line_def init_def Let_def
      banking_db_def)
  apply (simp add: recorded_answer_def banking_question_def sql_avg_def dq_def sq_def newline_def)
  done

subsection \<open>Ingestion\<close>




lemma fetch_all_frame:
  "\<exists>tr wd. snd (fetch_all w urls s) = s\<lparr>web_documents := wd, trace := tr\<rparr>
     \<and> prefix (trace s) tr"
proof (induction urls arbitrary: s)
  case Nil
  have "s = s\<lparr>web_documents := web_documents s, trace := trace s\<rparr>" by simp
  then show ?case by (metis fetch_all.simps(1) snd_conv prefix_order.order_refl)
next
  case (Cons u urls)
  show ?case
  proof (cases "requests_get w u")
    case (Inl err)
    then show ?thesis
      by (auto simp add: log_events_def intro!: exI [of _ "trace s @ [Fetch u]"] exI [of _ "web_documents s"])
  next
    case (Inr content)
    obtain tr wd where "snd (fetch_all w urls
            ((log_events [Fetch u, Extract content] s)
               \<lparr>web_documents := web_documents s @ [get_text w content]\<rparr>))
          = ((log_events [Fetch u, Extract content] s)
               \<lparr>web_documents := web_documents s @ [get_text w content]\<rparr>)
              \<lparr>web_documents := wd, trace := tr\<rparr>"
        and "prefix (trace ((log_events [Fetch u, Extract content] s)
               \<lparr>web_documents := web_documents s @ [get_text w content]\<rparr>)) tr"
      using Cons.IH by blast
    with Inr show ?thesis
      by (auto simp add: log_events_def dest: append_prefixD
          intro!: exI [of _ tr] exI [of _ wd])
  qed
qed

lemma ingest_fetch_result:
  "fst (ingest w s) =
     fst (fetch_all w (search w (query s) 10)
            (log_events [Search (query s) 10] (s\<lparr>web_documents := []\<rparr>)))"
  by (simp add: ingest_def Let_def split: prod.splits option.splits)








subsection \<open>The query\<close>

lemma run_cells_continue: "fst (c s) = None \<Longrightarrow> run_cells (c # cs) s = run_cells cs (snd (c s))"
  by (cases "c s") simp

lemma run_cells_stop: "fst (c s) = Some err \<Longrightarrow> run_cells (c # cs) s = (Some err, snd (c s))"
  by (cases "c s") simp

lemma run_cells_preserves:
  assumes "\<And>c s. c \<in> set cs \<Longrightarrow> P s \<Longrightarrow> P (snd (c s))" and "P s"
  shows "P (snd (run_cells cs s))"
  using assms
proof (induction cs arbitrary: s)
  case Nil
  then show ?case by simp
next
  case (Cons c cs)
  have step: "P (snd (c s))" using Cons.prems by simp
  show ?case
  proof (cases "fst (c s)")
    case None
    have "P (snd (run_cells cs (snd (c s))))"
      using Cons.IH [of "snd (c s)"] Cons.prems(1) step by simp
    then show ?thesis using None by (simp add: run_cells_continue del: run_cells.simps)
  next
    case (Some err)
    then show ?thesis using step by (simp add: run_cells_stop del: run_cells.simps)
  qed
qed

lemma receives_only_append [simp]:
  "receives_only q (xs @ ys) \<longleftrightarrow> receives_only q xs \<and> receives_only q ys"
  by (simp add: receives_only_def)

lemma basic_generation_keeps: "query_kept q s \<Longrightarrow> query_kept q (snd (basic_generation w s))"
  by (auto simp add: query_kept_def basic_generation_def chat_def log_events_def print_line_def
      handle_generation_error_def receives_only_def split: sum.splits option.splits)

lemma fetch_all_keeps: "query_kept q s \<Longrightarrow> query_kept q (snd (fetch_all w urls s))"
proof (induction urls arbitrary: s)
  case Nil
  then show ?case by simp
next
  case (Cons u urls)
  show ?case
  proof (cases "requests_get w u")
    case (Inl err)
    with Cons.prems show ?thesis
      by (simp add: query_kept_def log_events_def receives_only_def)
  next
    case (Inr content)
    have "query_kept q ((log_events [Fetch u, Extract content] s)
               \<lparr>web_documents := web_documents s @ [get_text w content]\<rparr>)"
      using Cons.prems by (simp add: query_kept_def log_events_def receives_only_def)
    from Cons.IH [OF this] Inr show ?thesis by simp
  qed
qed

lemma ingest_keeps:
  assumes "query_kept q s"
  shows "query_kept q (snd (ingest w s))"
proof -
  have "query_kept q (log_events [Search (query s) 10] (s\<lparr>web_documents := []\<rparr>))"
    using assms by (simp add: query_kept_def log_events_def receives_only_def)
  from fetch_all_keeps [OF this, of w "search w (query s) 10"] show ?thesis
    by (cases "fetch_all w (search w (query s) 10)
                 (log_events [Search (query s) 10] (s\<lparr>web_documents := []\<rparr>))")
       (simp add: ingest_def Let_def query_kept_def log_events_def print_line_def
        receives_only_def split: option.splits)
qed

lemma build_index_keeps: "query_kept q s \<Longrightarrow> query_kept q (snd (build_index w s))"
  by (auto simp add: query_kept_def build_index_def log_events_def receives_only_def
      list_all_iff split: option.splits)

lemma retrieve_cell_keeps: "query_kept q s \<Longrightarrow> query_kept q (snd (retrieve_cell w s))"
  by (auto simp add: query_kept_def retrieve_cell_def log_events_def receives_only_def
      split: option.splits)

lemma show_retrieved_keeps: "query_kept q s \<Longrightarrow> query_kept q (snd (show_retrieved s))"
  by (auto simp add: query_kept_def show_retrieved_def pretty_print_docs_def print_line_def
      split: option.splits)

lemma rag_query_keeps: "query_kept q s \<Longrightarrow> query_kept q (snd (rag_query w s))"
  by (auto simp add: query_kept_def rag_query_def chat_def log_events_def print_line_def
      receives_only_def Let_def split: option.splits sum.splits)

lemma db_chain_invoke_keeps: "query_kept q s \<Longrightarrow> query_kept q (snd (db_chain_invoke w s))"
  by (auto simp add: query_kept_def db_chain_invoke_def chat_def log_events_def
      receives_only_def Let_def split: sum.splits)

lemma notebook_cell_keeps:
  assumes "c \<in> set (web_notebook w) \<union> set (sql_notebook w)" and "query_kept q s"
  shows "query_kept q (snd (c s))"
  using assms
  by (auto simp add: web_notebook_def web_pipeline_def sql_notebook_def
      basic_generation_keeps ingest_keeps build_index_keeps retrieve_cell_keeps
      show_retrieved_keeps rag_query_keeps db_chain_invoke_keeps)

lemma init_kept: "query_kept q (init q)"
  by (simp add: query_kept_def init_def receives_only_def)

lemma ingest_query: "query (snd (ingest w s)) = query s"
proof -
  obtain tr wd where
    "snd (fetch_all w (search w (query s) 10)
            (log_events [Search (query s) 10] (s\<lparr>web_documents := []\<rparr>)))
     = (log_events [Search (query s) 10] (s\<lparr>web_documents := []\<rparr>))
         \<lparr>web_documents := wd, trace := tr\<rparr>"
    using fetch_all_frame by blast
  then show ?thesis
    by (cases "fetch_all w (search w (query s) 10)
                 (log_events [Search (query s) 10] (s\<lparr>web_documents := []\<rparr>))")
       (simp add: ingest_def Let_def log_events_def print_line_def
        split: option.splits)
qed

lemma notebook_cell_query:
  assumes "c \<in> set (web_notebook w) \<union> set (sql_notebook w)"
  shows "query (snd (c s)) = query s"
proof -
  have "query (snd (basic_generation w s)) = query s"
    by (simp add: basic_generation_def chat_def log_events_def print_line_def
        handle_generation_error_def split: sum.splits option.splits)
  moreover have "query (snd (build_index w s)) = query s"
    by (simp add: build_index_def log_events_def split: option.splits)
  moreover have "query (snd (retrieve_cell w s)) = query s"
    by (simp add: retrieve_cell_def log_events_def split: option.splits)
  moreover have "query (snd (show_retrieved s)) = query s"
    by (simp add: show_retrieved_def pretty_print_docs_def print_line_def split: option.splits)
  moreover have "query (snd (rag_query w s)) = query s"
    by (simp add: rag_query_def chat_def log_events_def print_line_def Let_def
        split: option.splits sum.splits)
  ultimately show ?thesis
    using assms ingest_query [of w s] chain_query [of w s]
    by (auto simp add: web_notebook_def web_pipeline_def sql_notebook_def)
qed

lemma retrieve_cell_emitted:
  assumes "index s = Some idx"
  shows "emitted (retrieve_cell w) s = [Embed (query s), Retrieve (query s) similarity_top_k]"
  using assms by (simp add: emitted_def retrieve_cell_def log_events_def)

text \<open>
  C7. The query bound at the start of a run stays bound to the same string: after
  a run of either notebook, complete or not, \<^verbatim>\<open>query\<close> still holds it and every
  call that takes a query (the basic generation call, the search, the retrieval,
  the query engine, the database chain) was given it; no cell, run in any state,
  changes \<^verbatim>\<open>query\<close>.
\<close>

theorem query_is_immutable:
  "query_kept q (snd (run_cells (web_notebook w) (init q)))
   \<and> query_kept q (snd (run_cells (sql_notebook w) (init q)))
   \<and> (\<forall>c \<in> set (web_notebook w) \<union> set (sql_notebook w). query (snd (c s)) = query s)
   \<and> LlmChat (query s) \<in> set (emitted (basic_generation w) s)
   \<and> (index s \<noteq> None \<longrightarrow>
        Retrieve (query s) similarity_top_k \<in> set (emitted (retrieve_cell w) s)
        \<and> EngineQuery (query s) \<in> set (emitted (rag_query w) s))"
proof (intro conjI ballI impI)
  show "query_kept q (snd (run_cells (web_notebook w) (init q)))"
    by (rule run_cells_preserves [where P = "query_kept q"])
       (auto intro: notebook_cell_keeps init_kept)
  show "query_kept q (snd (run_cells (sql_notebook w) (init q)))"
    by (rule run_cells_preserves [where P = "query_kept q"])
       (auto intro: notebook_cell_keeps init_kept)
  show "LlmChat (query s) \<in> set (emitted (basic_generation w) s)"
    by (simp add: basic_generation_emitted)
next
  fix c assume "c \<in> set (web_notebook w) \<union> set (sql_notebook w)"
  then show "query (snd (c s)) = query s" by (rule notebook_cell_query)
next
  assume "index s \<noteq> None"
  then obtain idx where idx: "index s = Some idx" by auto
  show "Retrieve (query s) similarity_top_k \<in> set (emitted (retrieve_cell w) s)"
    by (simp add: retrieve_cell_emitted [OF idx])
  show "EngineQuery (query s) \<in> set (emitted (rag_query w) s)"
    by (simp add: rag_query_emitted [OF idx])
qed


theorem query_is_immutable_witness:
  "index ((init world_series)\<lparr>index := Some []\<rparr>) \<noteq> None
   \<and> rag_query calm_world \<in> set (web_notebook calm_world) \<union> set (sql_notebook calm_world)
   \<and> query (snd (rag_query calm_world ((init world_series)\<lparr>index := Some []\<rparr>))) = world_series
   \<and> EngineQuery world_series
        \<in> set (emitted (rag_query calm_world) ((init world_series)\<lparr>index := Some []\<rparr>))
   \<and> query_kept world_series (snd (run_cells (web_notebook calm_world) (init world_series)))"
proof -
  have bound: "index ((init world_series)\<lparr>index := Some []\<rparr>) \<noteq> None"
    by simp
  have cell: "rag_query calm_world \<in> set (web_notebook calm_world) \<union> set (sql_notebook calm_world)"
    by (simp add: web_notebook_def web_pipeline_def)
  have q: "query ((init world_series)\<lparr>index := Some []\<rparr>) = world_series"
    by (simp add: init_def)
  show ?thesis
    using query_is_immutable
            [of world_series calm_world "(init world_series)\<lparr>index := Some []\<rparr>"]
          bound cell q
    by auto
qed

subsection \<open>Order of the stages of the web pipeline\<close>

lemma stages_append [simp]: "stages (xs @ ys) = stages xs @ stages ys"
  by (simp add: stages_def map_filter_def)


lemma stages_Nil [simp]: "stages [] = []"
  by (simp add: stages_def map_filter_def)









subsection \<open>Outcome of a run\<close>










subsection \<open>Retrieval\<close>

lemma faiss_search_nearest:
  "\<exists>rest. mset idx = mset (faiss_search k idx qe) + mset rest
      \<and> (\<forall>x \<in> set (faiss_search k idx qe). \<forall>y \<in> set rest.
            l2_distance (snd x) qe \<le> l2_distance (snd y) qe)"
proof -
  let ?f = "\<lambda>(c, e). l2_distance e qe"
  let ?ys = "sort_key ?f idx"
  have "sorted (map ?f (take k ?ys @ drop k ?ys))" by simp
  then have far: "\<forall>x \<in> set (take k ?ys). \<forall>y \<in> set (drop k ?ys). ?f x \<le> ?f y"
    unfolding map_append sorted_append by auto
  have "mset idx = mset (take k ?ys @ drop k ?ys)" by simp
  then have "mset idx = mset (faiss_search k idx qe) + mset (drop k ?ys)"
    unfolding faiss_search_def by (simp del: append_take_drop_id)
  with far show ?thesis
    unfolding faiss_search_def by (auto simp add: case_prod_unfold)
qed

text \<open>
  C2. The retriever is configured with \<open>k = 5\<close>. For every index and every query
  it returns at most 5 chunks, all of them chunks of the index, in ascending order
  of their L2 distance to the query vector; every chunk of the index that is not
  returned is at least as far from the query as every chunk returned. The cell
  binds \<^verbatim>\<open>retrieved_docs\<close> to these chunks.
\<close>

theorem retrieval_top_k:
  "similarity_top_k = 5
   \<and> length (faiss_search similarity_top_k idx qe) \<le> 5
   \<and> sorted (map (\<lambda>(c, e). l2_distance e qe) (faiss_search similarity_top_k idx qe))
   \<and> set (faiss_search similarity_top_k idx qe) \<subseteq> set idx
   \<and> (\<exists>rest. mset idx = mset (faiss_search similarity_top_k idx qe) + mset rest
         \<and> (\<forall>x \<in> set (faiss_search similarity_top_k idx qe). \<forall>y \<in> set rest.
               l2_distance (snd x) qe \<le> l2_distance (snd y) qe))
   \<and> length (retrieve w idx q) \<le> 5
   \<and> (index s = Some idx \<longrightarrow>
        retrieved_docs (snd (retrieve_cell w s)) = Some (retrieve w idx (query s)))"
proof (intro conjI impI)
  show "similarity_top_k = 5"
    by (simp add: similarity_top_k_def)
  show "length (faiss_search similarity_top_k idx qe) \<le> 5"
    by (simp add: faiss_search_def similarity_top_k_def)
  show "sorted (map (\<lambda>(c, e). l2_distance e qe) (faiss_search similarity_top_k idx qe))"
    unfolding faiss_search_def take_map [symmetric] by (rule sorted_wrt_take) simp
  show "set (faiss_search similarity_top_k idx qe) \<subseteq> set idx"
    using set_take_subset [of similarity_top_k "sort_key (\<lambda>(c, e). l2_distance e qe) idx"]
    by (simp add: faiss_search_def)
  show "\<exists>rest. mset idx = mset (faiss_search similarity_top_k idx qe) + mset rest
         \<and> (\<forall>x \<in> set (faiss_search similarity_top_k idx qe). \<forall>y \<in> set rest.
               l2_distance (snd x) qe \<le> l2_distance (snd y) qe)"
    by (rule faiss_search_nearest)
  show "length (retrieve w idx q) \<le> 5"
    by (simp add: retrieve_def faiss_search_def similarity_top_k_def)
next
  assume "index s = Some idx"
  then show "retrieved_docs (snd (retrieve_cell w s)) = Some (retrieve w idx (query s))"
    by (simp add: retrieve_cell_def log_events_def)
qed

theorem retrieval_top_k_witness:
  "index ((init world_series)\<lparr>index := Some small_index\<rparr>) = Some small_index
   \<and> faiss_search similarity_top_k small_index [0]
       = [(''b'', [1]), (''d'', [2]), (''a'', [3]), (''f'', [4]), (''e'', [5])]
   \<and> length (faiss_search similarity_top_k small_index [0]) \<le> 5
   \<and> sorted (map (\<lambda>(c, e). l2_distance e [0]) (faiss_search similarity_top_k small_index [0]))
   \<and> retrieved_docs
        (snd (retrieve_cell calm_world ((init world_series)\<lparr>index := Some small_index\<rparr>)))
       = Some (retrieve calm_world small_index world_series)"
proof -
  have bound: "index ((init world_series)\<lparr>index := Some small_index\<rparr>) = Some small_index"
    by simp
  have q: "query ((init world_series)\<lparr>index := Some small_index\<rparr>) = world_series"
    by (simp add: init_def)
  have found: "faiss_search similarity_top_k small_index [0]
       = [(''b'', [1]), (''d'', [2]), (''a'', [3]), (''f'', [4]), (''e'', [5])]"
    by (simp add: faiss_search_def similarity_top_k_def small_index_def l2_distance_def)
  show ?thesis
    using retrieval_top_k
            [of small_index "[0]" calm_world world_series
                "(init world_series)\<lparr>index := Some small_index\<rparr>"]
          bound q found
    by simp
qed

end
